theory Spec2Isabelle
  imports Complex_Main
begin

section \<open>Python values and exceptions\<close>

text \<open>
  The module \<^verbatim>\<open>skbel/bnn/models.py\<close> assembles Keras models and wraps one of them in
  a scikit-learn estimator. What the module builds is recorded as values that describe
  the framework's objects (a layer with its arguments, a model with its layers). Every
  call into the framework is a call of a parameter of the embedding, which may raise and
  may change the framework's state. Exceptions are values: a function that can raise
  returns \<open>error + 'a\<close>, with \<open>Inl\<close> for the exception.

  \<open>ValueError\<close> carries the message the source gives it. \<open>TypeError\<close> and
  \<open>IndexError\<close> are raised by the interpreter when \<^verbatim>\<open>n_hidden[i]\<close> is evaluated on
  an integer, or on a list that is too short. \<open>FrameworkError\<close> is an exception raised
  inside a call into the framework, whatever its Python class, with its message.
\<close>

datatype error =
    ValueError string
  | TypeError
  | IndexError
  | FrameworkError string

text \<open>
  The argument \<^verbatim>\<open>n_hidden: int or list\<close>: one integer, or a list of integers.
\<close>

datatype py_n_hidden = PyInt int | PyList "int list"

text \<open>\<^verbatim>\<open>range(n)\<close> for an integer \<open>n\<close>: empty when \<open>n \<le> 0\<close>.\<close>

definition py_range :: "int \<Rightarrow> nat list" where
  "py_range n = [0..<nat n]"

text \<open>\<^verbatim>\<open>xs * n\<close> for a list \<open>xs\<close> and an integer \<open>n\<close>: empty when \<open>n \<le> 0\<close>.\<close>

definition list_mul :: "'a list \<Rightarrow> int \<Rightarrow> 'a list" where
  "list_mul xs n = concat (replicate (nat n) xs)"

text \<open>
  \<^verbatim>\<open>n_hidden[i]\<close> for an index \<open>i \<ge> 0\<close> (the indices come from \<^verbatim>\<open>range\<close>, which
  yields no negative number).
\<close>

definition subscript :: "py_n_hidden \<Rightarrow> nat \<Rightarrow> error + int" where
  "subscript v i =
     (case v of
        PyInt _ \<Rightarrow> Inl TypeError
      | PyList xs \<Rightarrow> if i < length xs then Inr (xs ! i) else Inl IndexError)"

text \<open>The decimal digits of a natural number, for \<^verbatim>\<open>f"dense{i + 1}"\<close>.\<close>

definition digit_char :: "nat \<Rightarrow> char" where
  "digit_char d = ''0123456789'' ! d"

fun str_nat :: "nat \<Rightarrow> string" where
  "str_nat n =
     (if n < 10 then [digit_char n]
      else str_nat (n div 10) @ [digit_char (n mod 10)])"

declare str_nat.simps [simp del]

section \<open>Descriptions of framework objects\<close>

text \<open>
  Functions of \<^verbatim>\<open>skbel.nn_utilities\<close> that the module hands to the framework. They
  are passed as values; \<^verbatim>\<open>prior_regularize\<close> alone is called, on the tuple
  \<^verbatim>\<open>(output_shape,)\<close>, and the call is recorded.
\<close>

datatype nn_utility = prior_trainable | posterior_mean_field

datatype prior = prior_regularize "int list"

datatype loss_fn = neg_log_likelihood | MeanSquaredError | UserLoss string

datatype optimizer = Adam

text \<open>
  The first argument of a dense layer: a width, or the value of
  \<^verbatim>\<open>tfp.layers.MultivariateNormalTriL.params_size(output_shape)\<close>.
\<close>

datatype units = Width int | MultivariateNormalTriL_params_size int

datatype 'v regularizer = KLDivergenceRegularizer prior 'v

text \<open>
  The layers, with their arguments in the order the source gives them. The type \<open>'v\<close>
  is the type of the values that the module passes through without looking at them
  (\<^verbatim>\<open>kl_weight\<close>, and the data \<^verbatim>\<open>X\<close>, \<^verbatim>\<open>y\<close> of the estimator).

  \<^item> \<open>InputLayer input_shape name\<close>
  \<^item> \<open>DenseVariational units make_prior_fn make_posterior_fn kl_weight activation name\<close>
  \<^item> \<open>Dense units activation name\<close>
  \<^item> \<open>MultivariateNormalTriL event_size activity_regularizer name\<close>
\<close>

datatype 'v layer =
    InputLayer "int list" string
  | DenseVariational units nn_utility nn_utility 'v string string
  | Dense units string string
  | MultivariateNormalTriL int "'v regularizer" string

text \<open>
  A compiled \<^verbatim>\<open>tfk.Sequential\<close>: its layers and name, and the arguments of
  \<^verbatim>\<open>model.compile\<close>.
\<close>

record 'v keras_model =
  layers :: "'v layer list"
  model_name :: string
  compile_optimizer :: optimizer
  compile_loss :: loss_fn

section \<open>Calls into the framework\<close>

text \<open>
  The calls that the factories make, each with its arguments:

  \<^item> \<open>Construct l\<close>: the constructor of the layer \<open>l\<close>
  \<^item> \<open>Params_size n\<close>: \<^verbatim>\<open>tfp.layers.MultivariateNormalTriL.params_size(n)\<close>
  \<^item> \<open>Prior_regularize shape\<close>: \<^verbatim>\<open>prior_regularize(shape)\<close>
  \<^item> \<open>New_regularizer r\<close>: \<^verbatim>\<open>tfp.layers.KLDivergenceRegularizer(..., weight=...)\<close>
  \<^item> \<open>Sequential ls name\<close>: \<^verbatim>\<open>tfk.Sequential(ls, name=name)\<close>
  \<^item> \<open>New_optimizer\<close>: \<^verbatim>\<open>tf.keras.optimizers.Adam()\<close>
  \<^item> \<open>New_loss\<close>: \<^verbatim>\<open>tf.keras.losses.MeanSquaredError()\<close>
  \<^item> \<open>Compile ls optimizer loss\<close>: \<^verbatim>\<open>model.compile(optimizer=optimizer, loss=loss)\<close>
    on the model with the layers \<open>ls\<close>
\<close>

datatype 'v call =
    Construct "'v layer"
  | Params_size int
  | Prior_regularize "int list"
  | New_regularizer "'v regularizer"
  | Sequential "'v layer list" string
  | New_optimizer
  | New_loss
  | Compile "'v layer list" optimizer loss_fn

text \<open>
  The framework is a parameter of the embedding. Each of its operations takes the
  framework's own state \<open>'w\<close> (the weights, the optimizer, the random generator, the
  layers built so far) and returns the new state.

  \<^item> \<open>keras_call c\<close> is a call that a factory makes: \<open>None\<close> when it returns,
    \<open>Some msg\<close> when it raises an exception with the message \<open>msg\<close>
  \<^item> \<open>model_fit m X y epochs batch_size verbose\<close> is \<^verbatim>\<open>m.fit(X, y, epochs=, batch_size=, verbose=)\<close>
  \<^item> \<open>model_call m X\<close> is \<^verbatim>\<open>m(X)\<close>
  \<^item> \<open>dist_sample d n\<close> is \<^verbatim>\<open>d.sample(n)\<close>
  \<^item> \<open>dist_stddev d\<close> is \<^verbatim>\<open>d.stddev()\<close>
  \<^item> \<open>model_evaluate m X y verbose\<close> is \<^verbatim>\<open>m.evaluate(X, y, verbose=)\<close>

  The methods return a value or an exception. The target \<^verbatim>\<open>y\<close> is \<open>None\<close> where
  Python passes \<^verbatim>\<open>None\<close>.
\<close>

record ('v, 'w) framework =
  keras_call :: "'v call \<Rightarrow> 'w \<Rightarrow> string option \<times> 'w"
  model_fit :: "'v keras_model \<Rightarrow> 'v \<Rightarrow> 'v option \<Rightarrow> int \<Rightarrow> int \<Rightarrow> int \<Rightarrow> 'w \<Rightarrow> (error + 'v) \<times> 'w"
  model_call :: "'v keras_model \<Rightarrow> 'v \<Rightarrow> 'w \<Rightarrow> (error + 'v) \<times> 'w"
  dist_sample :: "'v \<Rightarrow> int \<Rightarrow> 'w \<Rightarrow> (error + 'v) \<times> 'w"
  dist_stddev :: "'v \<Rightarrow> 'w \<Rightarrow> (error + 'v) \<times> 'w"
  model_evaluate :: "'v keras_model \<Rightarrow> 'v \<Rightarrow> 'v option \<Rightarrow> int \<Rightarrow> 'w \<Rightarrow> (error + 'v) \<times> 'w"

text \<open>One call: the exception of the framework, if any, leaves the caller.\<close>

definition keras :: "('v, 'w) framework \<Rightarrow> 'v call \<Rightarrow> 'w \<Rightarrow> (error + unit) \<times> 'w" where
  "keras fw c w =
     (case keras_call fw c w of
        (None, w') \<Rightarrow> (Inr (), w')
      | (Some msg, w') \<Rightarrow> (Inl (FrameworkError msg), w'))"

text \<open>Calls made one after the other; the first exception ends them.\<close>

fun keras_calls :: "('v, 'w) framework \<Rightarrow> 'v call list \<Rightarrow> 'w \<Rightarrow> (error + unit) \<times> 'w" where
  "keras_calls fw [] w = (Inr (), w)"
| "keras_calls fw (c # cs) w =
     (case keras fw c w of
        (Inl e, w') \<Rightarrow> (Inl e, w')
      | (Inr _, w') \<Rightarrow> keras_calls fw cs w')"

section \<open>The model factories\<close>

text \<open>
  The list comprehension
  \<^verbatim>\<open>[tfp.layers.DenseVariational(n_hidden[i], ..., name=f"dense{i + 1}") for i in range(n_layers)]\<close>
  evaluated over a list of indices, from left to right: for each index,
  \<^verbatim>\<open>n_hidden[i]\<close> and then the constructor of the layer. It stops at the first
  exception.
\<close>

definition hidden_layer :: "int \<Rightarrow> 'v \<Rightarrow> nat \<Rightarrow> 'v layer" where
  "hidden_layer u kl i =
     DenseVariational (Width u) prior_trainable posterior_mean_field kl
       ''relu'' (''dense'' @ str_nat (i + 1))"

fun variational_layers ::
  "('v, 'w) framework \<Rightarrow> py_n_hidden \<Rightarrow> 'v \<Rightarrow> nat list \<Rightarrow> 'w \<Rightarrow> (error + 'v layer list) \<times> 'w" where
  "variational_layers fw nh kl [] w = (Inr [], w)"
| "variational_layers fw nh kl (i # is) w =
     (case subscript nh i of
        Inl e \<Rightarrow> (Inl e, w)
      | Inr u \<Rightarrow>
          (case keras fw (Construct (hidden_layer u kl i)) w of
             (Inl e, w') \<Rightarrow> (Inl e, w')
           | (Inr _, w') \<Rightarrow>
               (case variational_layers fw nh kl is w' of
                  (Inl e, w'') \<Rightarrow> (Inl e, w'')
                | (Inr ls, w'') \<Rightarrow> (Inr (hidden_layer u kl i # ls), w''))))"

text \<open>
  Lines 102 to 127 of \<^verbatim>\<open>probabilistic_variational_model\<close>, given the hidden layers
  \<open>vls\<close> and the loss: the layers of the model, the calls into the framework in the
  order Python makes them (the arguments of a call before the call), and the compiled
  model.
\<close>

definition probabilistic_layers :: "int \<Rightarrow> int \<Rightarrow> 'v \<Rightarrow> 'v layer list \<Rightarrow> 'v layer list" where
  "probabilistic_layers inp outp kl vls =
     [InputLayer [inp] ''input''] @ vls @
     [DenseVariational (MultivariateNormalTriL_params_size outp)
        prior_trainable posterior_mean_field kl ''linear'' ''dense_output'',
      MultivariateNormalTriL outp
        (KLDivergenceRegularizer (prior_regularize [outp]) kl) ''output'']"

definition probabilistic_calls ::
  "int \<Rightarrow> int \<Rightarrow> 'v \<Rightarrow> 'v layer list \<Rightarrow> loss_fn \<Rightarrow> 'v call list" where
  "probabilistic_calls inp outp kl vls lo =
     [Construct (InputLayer [inp] ''input''),
      Params_size outp,
      Construct (DenseVariational (MultivariateNormalTriL_params_size outp)
        prior_trainable posterior_mean_field kl ''linear'' ''dense_output''),
      Prior_regularize [outp],
      New_regularizer (KLDivergenceRegularizer (prior_regularize [outp]) kl),
      Construct (MultivariateNormalTriL outp
        (KLDivergenceRegularizer (prior_regularize [outp]) kl) ''output''),
      Sequential (probabilistic_layers inp outp kl vls) ''model'',
      New_optimizer,
      Compile (probabilistic_layers inp outp kl vls) Adam lo]"

definition probabilistic_model ::
  "int \<Rightarrow> int \<Rightarrow> 'v \<Rightarrow> 'v layer list \<Rightarrow> loss_fn \<Rightarrow> 'v keras_model" where
  "probabilistic_model inp outp kl vls lo =
     \<lparr> layers = probabilistic_layers inp outp kl vls,
       model_name = ''model'',
       compile_optimizer = Adam,
       compile_loss = lo \<rparr>"

text \<open>
  \<^verbatim>\<open>probabilistic_variational_model(input_shape, output_shape, n_hidden, kl_weight,
  n_layers=2, loss=None)\<close>. The argument \<open>lo\<close> is \<open>None\<close> when the loss is omitted or
  given as \<^verbatim>\<open>None\<close>.
\<close>

definition probabilistic_variational_model ::
  "('v, 'w) framework \<Rightarrow> int \<Rightarrow> int \<Rightarrow> py_n_hidden \<Rightarrow> 'v \<Rightarrow> int \<Rightarrow> loss_fn option \<Rightarrow>
     'w \<Rightarrow> (error + 'v keras_model) \<times> 'w" where
  "probabilistic_variational_model fw inp outp nh kl nl lo w =
     (let lo' = (case lo of None \<Rightarrow> neg_log_likelihood | Some l \<Rightarrow> l) in
      case variational_layers fw nh kl (py_range nl) w of
        (Inl e, w') \<Rightarrow> (Inl e, w')
      | (Inr vls, w') \<Rightarrow>
          (case keras_calls fw (probabilistic_calls inp outp kl vls lo') w' of
             (Inl e, w'') \<Rightarrow> (Inl e, w'')
           | (Inr _, w'') \<Rightarrow> (Inr (probabilistic_model inp outp kl vls lo'), w'')))"

text \<open>
  Lines 224 to 241 of \<^verbatim>\<open>variational_model\<close>, given the hidden layers \<open>vls\<close>.
\<close>

definition deterministic_layers :: "int \<Rightarrow> int \<Rightarrow> 'v layer list \<Rightarrow> 'v layer list" where
  "deterministic_layers inp outp vls =
     [InputLayer [inp] ''input''] @ vls @ [Dense (Width outp) ''linear'' ''output'']"

definition deterministic_calls :: "int \<Rightarrow> int \<Rightarrow> 'v layer list \<Rightarrow> 'v call list" where
  "deterministic_calls inp outp vls =
     [Construct (InputLayer [inp] ''input''),
      Construct (Dense (Width outp) ''linear'' ''output''),
      Sequential (deterministic_layers inp outp vls) ''model'',
      New_optimizer,
      New_loss,
      Compile (deterministic_layers inp outp vls) Adam MeanSquaredError]"

definition deterministic_model :: "int \<Rightarrow> int \<Rightarrow> 'v layer list \<Rightarrow> 'v keras_model" where
  "deterministic_model inp outp vls =
     \<lparr> layers = deterministic_layers inp outp vls,
       model_name = ''model'',
       compile_optimizer = Adam,
       compile_loss = MeanSquaredError \<rparr>"

text \<open>
  \<^verbatim>\<open>variational_model(input_shape, output_shape, n_hidden, kl_weight, n_layers=2)\<close>.
  A list is checked against \<^verbatim>\<open>n_layers\<close>; anything else is replaced by
  \<^verbatim>\<open>[n_hidden] * n_layers\<close>.
\<close>

definition variational_model ::
  "('v, 'w) framework \<Rightarrow> int \<Rightarrow> int \<Rightarrow> py_n_hidden \<Rightarrow> 'v \<Rightarrow> int \<Rightarrow>
     'w \<Rightarrow> (error + 'v keras_model) \<times> 'w" where
  "variational_model fw inp outp nh kl nl w =
     (case (case nh of
              PyList xs \<Rightarrow>
                if int (length xs) \<noteq> nl
                then Inl (ValueError ''n_hidden must be a list of length n_layers'')
                else Inr (PyList xs)
            | PyInt h \<Rightarrow> Inr (PyList (list_mul [h] nl))) of
        Inl e \<Rightarrow> (Inl e, w)
      | Inr nh' \<Rightarrow>
          (case variational_layers fw nh' kl (py_range nl) w of
             (Inl e, w') \<Rightarrow> (Inl e, w')
           | (Inr vls, w') \<Rightarrow>
               (case keras_calls fw (deterministic_calls inp outp vls) w' of
                  (Inl e, w'') \<Rightarrow> (Inl e, w'')
                | (Inr _, w'') \<Rightarrow> (Inr (deterministic_model inp outp vls), w''))))"



text \<open>The hidden layers built from the first \<open>n\<close> entries of a list of widths.\<close>

definition hidden_layers :: "int list \<Rightarrow> 'v \<Rightarrow> nat \<Rightarrow> 'v layer list" where
  "hidden_layers xs kl n = map (\<lambda>i. hidden_layer (xs ! i) kl i) [0..<n]"

section \<open>The estimator\<close>

text \<open>
  \<^verbatim>\<open>class PBNN(TransformerMixin, MultiOutputMixin, BaseEstimator)\<close>: the attributes that
  \<^verbatim>\<open>__init__\<close> sets.
\<close>

record 'v pbnn =
  input_shape :: int
  output_shape :: int
  n_hidden :: py_n_hidden
  kl_weight :: 'v
  n_layers :: int
  epochs :: int
  batch_size :: int
  verbose :: int
  model :: "'v keras_model"

text \<open>
  \<^verbatim>\<open>PBNN.__init__\<close> stores its arguments and builds the model; an exception of
  \<^verbatim>\<open>probabilistic_variational_model\<close> leaves the constructor, and there is no instance.
  The defaults of the source are \<^verbatim>\<open>n_layers=2, epochs=100, batch_size=32, verbose=0\<close>.
\<close>

definition PBNN_init ::
  "('v, 'w) framework \<Rightarrow> int \<Rightarrow> int \<Rightarrow> py_n_hidden \<Rightarrow> 'v \<Rightarrow> int \<Rightarrow> int \<Rightarrow> int \<Rightarrow> int \<Rightarrow>
     'w \<Rightarrow> (error + 'v pbnn) \<times> 'w" where
  "PBNN_init fw inp outp nh kl nl ep bs vb w =
     (case probabilistic_variational_model fw inp outp nh kl nl None w of
        (Inl e, w') \<Rightarrow> (Inl e, w')
      | (Inr m, w') \<Rightarrow>
          (Inr \<lparr> input_shape = inp, output_shape = outp, n_hidden = nh, kl_weight = kl,
                 n_layers = nl, epochs = ep, batch_size = bs, verbose = vb, model = m \<rparr>,
           w'))"

text \<open>
  The program state: the estimator objects, by reference, and the state of the
  framework. A method takes \<^verbatim>\<open>self\<close> as a reference and returns a value or an
  exception, and the state it leaves.
\<close>

type_synonym ref = nat

record ('v, 'w) state =
  objs :: "ref \<Rightarrow> 'v pbnn"
  world :: 'w

type_synonym ('a, 'v, 'w) py = "('v, 'w) state \<Rightarrow> (error + 'a) \<times> ('v, 'w) state"

definition return_py :: "'a \<Rightarrow> ('a, 'v, 'w) py" where
  "return_py a s = (Inr a, s)"

definition then_py :: "('a, 'v, 'w) py \<Rightarrow> ('a \<Rightarrow> ('b, 'v, 'w) py) \<Rightarrow> ('b, 'v, 'w) py" where
  "then_py f g s = (case f s of (Inl e, s') \<Rightarrow> (Inl e, s') | (Inr a, s') \<Rightarrow> g a s')"

definition attr :: "ref \<Rightarrow> ('v pbnn \<Rightarrow> 'a) \<Rightarrow> ('a, 'v, 'w) py" where
  "attr self f s = (Inr (f (objs s self)), s)"

definition in_world :: "('w \<Rightarrow> (error + 'a) \<times> 'w) \<Rightarrow> ('a, 'v, 'w) py" where
  "in_world f s = (case f (world s) of (r, w') \<Rightarrow> (r, s\<lparr>world := w'\<rparr>))"

text \<open>
  \<^verbatim>\<open>def fit(self, X, y): self.model.fit(X, y, epochs=self.epochs,
  batch_size=self.batch_size, verbose=self.verbose); return self\<close>
\<close>

definition fit :: "('v, 'w) framework \<Rightarrow> ref \<Rightarrow> 'v \<Rightarrow> 'v option \<Rightarrow> (ref, 'v, 'w) py" where
  "fit fw self X y =
     then_py (attr self model) (\<lambda>m.
     then_py (attr self epochs) (\<lambda>ep.
     then_py (attr self batch_size) (\<lambda>bs.
     then_py (attr self verbose) (\<lambda>vb.
     then_py (in_world (model_fit fw m X y ep bs vb)) (\<lambda>_.
     return_py self)))))"

text \<open>\<^verbatim>\<open>def predict(self, X, n_samples=100): return self.model(X).sample(n_samples)\<close>\<close>

definition predict :: "('v, 'w) framework \<Rightarrow> ref \<Rightarrow> 'v \<Rightarrow> int \<Rightarrow> ('v, 'v, 'w) py" where
  "predict fw self X n_samples =
     then_py (attr self model) (\<lambda>m.
     then_py (in_world (model_call fw m X)) (\<lambda>d.
     in_world (dist_sample fw d n_samples)))"

text \<open>\<^verbatim>\<open>def predict_std(self, X): return self.model(X).stddev()\<close>\<close>

definition predict_std :: "('v, 'w) framework \<Rightarrow> ref \<Rightarrow> 'v \<Rightarrow> ('v, 'v, 'w) py" where
  "predict_std fw self X =
     then_py (attr self model) (\<lambda>m.
     then_py (in_world (model_call fw m X)) (\<lambda>d.
     in_world (dist_stddev fw d)))"

text \<open>\<^verbatim>\<open>def score(self, X, y): return self.model.evaluate(X, y, verbose=self.verbose)\<close>\<close>

definition score :: "('v, 'w) framework \<Rightarrow> ref \<Rightarrow> 'v \<Rightarrow> 'v option \<Rightarrow> ('v, 'v, 'w) py" where
  "score fw self X y =
     then_py (attr self model) (\<lambda>m.
     then_py (attr self verbose) (\<lambda>vb.
     in_world (model_evaluate fw m X y vb)))"

text \<open>
  \<^verbatim>\<open>def transform(self, X): return self.predict(X)\<close>; \<^verbatim>\<open>n_samples\<close> takes its
  default, 100.
\<close>

definition transform :: "('v, 'w) framework \<Rightarrow> ref \<Rightarrow> 'v \<Rightarrow> ('v, 'v, 'w) py" where
  "transform fw self X = predict fw self X 100"

text \<open>
  \<^verbatim>\<open>def fit_transform(self, X, y=None, **fit_params): return self.fit(X, y).transform(X)\<close>;
  the keyword arguments are not used. \<^verbatim>\<open>transform\<close> is called on what \<^verbatim>\<open>fit\<close>
  returns.
\<close>

definition fit_transform :: "('v, 'w) framework \<Rightarrow> ref \<Rightarrow> 'v \<Rightarrow> 'v option \<Rightarrow> ('v, 'v, 'w) py" where
  "fit_transform fw self X y = then_py (fit fw self X y) (\<lambda>r. transform fw r X)"

text \<open>\<^verbatim>\<open>def inverse_transform(self, y): return y\<close>\<close>

definition inverse_transform :: "ref \<Rightarrow> 'a \<Rightarrow> ('a, 'v, 'w) py" where
  "inverse_transform self y = return_py y"

subsection \<open>A framework to run the program on\<close>

text \<open>
  A small stand-in for the framework, to evaluate the program on. As TensorFlow does, it
  refuses a negative dimension when \<^verbatim>\<open>tfk.Sequential\<close> builds its layers; every other
  call of a factory returns. Its state counts the models built, the training epochs and
  the samples drawn; \<^verbatim>\<open>fit\<close> rejects a missing target, a model returns its input as the
  distribution, and a sample depends on the state.
\<close>

fun layer_dims :: "'v layer \<Rightarrow> int list" where
  "layer_dims (InputLayer shape _) = shape"
| "layer_dims (DenseVariational (Width u) _ _ _ _ _) = [u]"
| "layer_dims (DenseVariational (MultivariateNormalTriL_params_size n) _ _ _ _ _) = [n]"
| "layer_dims (Dense (Width u) _ _) = [u]"
| "layer_dims (Dense (MultivariateNormalTriL_params_size n) _ _) = [n]"
| "layer_dims (MultivariateNormalTriL n _ _) = [n]"

definition example_framework :: "(real, nat) framework" where
  "example_framework =
     \<lparr> keras_call = (\<lambda>c w.
         (case c of
            Sequential ls nm \<Rightarrow>
              if list_ex (\<lambda>d. d < 0) (concat (map layer_dims ls))
              then (Some ''negative dimension'', w)
              else (None, Suc w)
          | _ \<Rightarrow> (None, w))),
       model_fit = (\<lambda>m X y ep bs vb w.
         (case y of
            None \<Rightarrow> (Inl (FrameworkError ''no target''), w)
          | Some t \<Rightarrow> (Inr 0, w + nat ep))),
       model_call = (\<lambda>m X w. (Inr X, w)),
       dist_sample = (\<lambda>d n w. (Inr (d + real w), Suc w)),
       dist_stddev = (\<lambda>d w. (Inr 0, w)),
       model_evaluate = (\<lambda>m X y vb w.
         (case y of
            None \<Rightarrow> (Inl (FrameworkError ''no target''), w)
          | Some t \<Rightarrow> (Inr (X - t), w))) \<rparr>"

definition example_state :: "(real, nat) state" where
  "example_state =
     \<lparr> objs = (\<lambda>_. projr (fst
         (PBNN_init example_framework 3 1 (PyList [8, 8]) (1 / 10) 2 100 32 0 0))),
       world = 1 \<rparr>"

section \<open>Properties of the factories\<close>

subsection \<open>Sequences of calls\<close>


lemma keras_calls_append:
  "keras_calls fw (cs @ ds) w =
     (case keras_calls fw cs w of
        (Inl e, w') \<Rightarrow> (Inl e, w')
      | (Inr _, w') \<Rightarrow> keras_calls fw ds w')"
  by (induction cs arbitrary: w) (simp_all split: prod.splits sum.splits)



subsection \<open>The hidden layers\<close>

text \<open>
  On a list that has an entry at every index asked for, the comprehension is the
  sequence of the constructor calls, one for each index; on an integer it raises at the
  first index.
\<close>

lemma variational_layers_list:
  "\<forall>i\<in>set is. i < length xs \<Longrightarrow>
   variational_layers fw (PyList xs) kl is w =
     (case keras_calls fw (map (\<lambda>i. Construct (hidden_layer (xs ! i) kl i)) is) w of
        (Inl e, w') \<Rightarrow> (Inl e, w')
      | (Inr u, w') \<Rightarrow> (Inr (map (\<lambda>i. hidden_layer (xs ! i) kl i) is), w'))"
  by (induction "is" arbitrary: w) (simp_all add: subscript_def split: prod.splits sum.splits)

lemma variational_layers_int:
  "variational_layers fw (PyInt h) kl is w = (if is = [] then (Inr [], w) else (Inl TypeError, w))"
  by (cases "is") (simp_all add: subscript_def)

lemma variational_layers_range:
  assumes "nl \<le> int (length xs)"
  shows "variational_layers fw (PyList xs) kl (py_range nl) w =
     (case keras_calls fw (map Construct (hidden_layers xs kl (nat nl))) w of
        (Inl e, w') \<Rightarrow> (Inl e, w')
      | (Inr u, w') \<Rightarrow> (Inr (hidden_layers xs kl (nat nl)), w'))"
proof -
  from assms have "\<forall>i\<in>set (py_range nl). i < length xs"
    by (auto simp add: py_range_def)
  then show ?thesis
    unfolding hidden_layers_def
    by (simp add: variational_layers_list py_range_def comp_def)
qed


lemma hidden_layers_take: "n \<le> length xs \<Longrightarrow> hidden_layers (take n xs) kl n = hidden_layers xs kl n"
  by (simp add: hidden_layers_def)





subsection \<open>The factories on a list that is long enough\<close>

text \<open>
  Then a factory is one sequence of calls into the framework, the constructors of the
  hidden layers first, and returns the model if every call returns.
\<close>

lemma probabilistic_variational_model_list:
  assumes "nl \<le> int (length xs)"
  shows "probabilistic_variational_model fw inp outp (PyList xs) kl nl lo w =
     (case keras_calls fw
             (map Construct (hidden_layers xs kl (nat nl)) @
              probabilistic_calls inp outp kl (hidden_layers xs kl (nat nl))
                (case lo of None \<Rightarrow> neg_log_likelihood | Some l \<Rightarrow> l)) w of
        (Inl e, w') \<Rightarrow> (Inl e, w')
      | (Inr u, w') \<Rightarrow>
          (Inr (probabilistic_model inp outp kl (hidden_layers xs kl (nat nl))
                 (case lo of None \<Rightarrow> neg_log_likelihood | Some l \<Rightarrow> l)), w'))"
  by (simp add: probabilistic_variational_model_def variational_layers_range [OF assms]
      keras_calls_append split: prod.splits sum.splits)




subsection \<open>The example framework\<close>

lemma example_keras_call:
  "keras_call example_framework c w =
     (case c of
        Sequential ls nm \<Rightarrow>
          if list_ex (\<lambda>d. d < 0) (concat (map layer_dims ls))
          then (Some ''negative dimension'', w)
          else (None, Suc w)
      | _ \<Rightarrow> (None, w))"
  by (simp add: example_framework_def)

lemmas example_eval =
  keras_def example_keras_call probabilistic_calls_def probabilistic_layers_def
  deterministic_calls_def deterministic_layers_def hidden_layers_def hidden_layer_def
  str_nat.simps digit_char_def upt_rec

subsection \<open>The claims\<close>

text \<open>
  C1. When \<^verbatim>\<open>n_hidden\<close> is a list whose length differs from \<^verbatim>\<open>n_layers\<close>,
  \<^verbatim>\<open>variational_model\<close> raises \<^verbatim>\<open>ValueError("n_hidden must be a list of length n_layers")\<close>.
  The result is the exception, so no model is returned, and the state of the framework
  is the one before the call: nothing was constructed.
\<close>

theorem variational_model_length_mismatch:
  "int (length xs) \<noteq> nl \<Longrightarrow>
   variational_model fw inp outp (PyList xs) kl nl w =
     (Inl (ValueError ''n_hidden must be a list of length n_layers''), w)"
  by (simp add: variational_model_def)

theorem variational_model_length_mismatch_witness:
  "int (length [8, 8, 8 :: int]) \<noteq> 2 \<and>
   variational_model example_framework 3 1 (PyList [8, 8, 8]) (1 / 10) 2 0 =
     (Inl (ValueError ''n_hidden must be a list of length n_layers''), 0)"
  using variational_model_length_mismatch [of "[8, 8, 8]" 2 example_framework 3 1 "1 / 10" 0]
  by simp

text \<open>
  C2. The claim: when \<^verbatim>\<open>n_hidden\<close> is a list whose length differs from
  \<^verbatim>\<open>n_layers\<close>, \<^verbatim>\<open>probabilistic_variational_model\<close> raises a configuration error and
  builds no model. The function has no such check. Called with the list
  \<^verbatim>\<open>[8, 8, 8]\<close> and \<^verbatim>\<open>n_layers = 2\<close> on the example framework it returns a model with
  the two hidden layers \<^verbatim>\<open>dense1\<close> and \<^verbatim>\<open>dense2\<close>; on every framework it does what it
  does for the list \<^verbatim>\<open>[8, 8]\<close>.
\<close>

theorem probabilistic_variational_model_no_length_check:
  "probabilistic_variational_model example_framework 3 1 (PyList [8, 8, 8]) kl 2 None w =
     (Inr \<lparr> layers =
              [InputLayer [3] ''input'',
               DenseVariational (Width 8) prior_trainable posterior_mean_field kl
                 ''relu'' ''dense1'',
               DenseVariational (Width 8) prior_trainable posterior_mean_field kl
                 ''relu'' ''dense2'',
               DenseVariational (MultivariateNormalTriL_params_size 1)
                 prior_trainable posterior_mean_field kl ''linear'' ''dense_output'',
               MultivariateNormalTriL 1
                 (KLDivergenceRegularizer (prior_regularize [1]) kl) ''output''],
            model_name = ''model'',
            compile_optimizer = Adam,
            compile_loss = neg_log_likelihood \<rparr>,
      Suc w) \<and>
   probabilistic_variational_model fw 3 1 (PyList [8, 8, 8]) kl' 2 None w' =
     probabilistic_variational_model fw 3 1 (PyList [8, 8]) kl' 2 None w'"
proof -
  have le3: "(2::int) \<le> int (length [8, 8, 8 :: int])" and le2: "(2::int) \<le> int (length [8, 8 :: int])"
    by simp_all
  have t: "hidden_layers [8, 8, 8] kl' (nat 2) = hidden_layers [8, 8] kl' (nat 2)"
    using hidden_layers_take [of 2 "[8, 8, 8]" kl'] by simp
  have general: "probabilistic_variational_model fw 3 1 (PyList [8, 8, 8]) kl' 2 None w' =
     probabilistic_variational_model fw 3 1 (PyList [8, 8]) kl' 2 None w'"
    by (simp only: probabilistic_variational_model_list [OF le3]
        probabilistic_variational_model_list [OF le2] t)
  have "probabilistic_variational_model example_framework 3 1 (PyList [8, 8, 8]) kl 2 None w =
     (Inr (probabilistic_model 3 1 kl (hidden_layers [8, 8, 8] kl (nat 2)) neg_log_likelihood),
      Suc w)"
    by (simp add: probabilistic_variational_model_list [OF le3] example_eval)
  with general show ?thesis
    by (simp add: probabilistic_model_def probabilistic_layers_def hidden_layers_def
        hidden_layer_def str_nat.simps digit_char_def upt_rec)
qed

text \<open>
  C4. The claim: a scalar \<^verbatim>\<open>n_hidden\<close> is expanded by
  \<^verbatim>\<open>probabilistic_variational_model\<close> to a list of length \<^verbatim>\<open>n_layers\<close>, and the call
  succeeds. The function subscripts \<^verbatim>\<open>n_hidden\<close> as it is given: called with
  \<^verbatim>\<open>n_hidden = 8\<close> and \<^verbatim>\<open>n_layers = 2\<close>, it raises \<^verbatim>\<open>TypeError\<close> at
  \<^verbatim>\<open>n_hidden[0]\<close>, before any call into the framework.
\<close>

theorem probabilistic_variational_model_scalar_raises:
  "probabilistic_variational_model fw 3 1 (PyInt 8) kl 2 lo w = (Inl TypeError, w)"
  by (simp add: probabilistic_variational_model_def variational_layers_int py_range_def)









section \<open>Properties of the estimator\<close>

lemma then_py_attr: "then_py (attr self f) g s = g (f (objs s self)) s"
  by (simp add: then_py_def attr_def)

lemma fit_unfold:
  "fit fw self X y s =
     (case model_fit fw (model (objs s self)) X y (epochs (objs s self))
             (batch_size (objs s self)) (verbose (objs s self)) (world s) of
        (Inl e, w') \<Rightarrow> (Inl e, s\<lparr>world := w'\<rparr>)
      | (Inr _, w') \<Rightarrow> (Inr self, s\<lparr>world := w'\<rparr>))"
  unfolding fit_def then_py_attr
  by (simp add: then_py_def in_world_def return_py_def split: prod.splits sum.splits)

text \<open>
  C5. \<^verbatim>\<open>PBNN.inverse_transform(y)\<close> returns \<open>y\<close> in every state, fitted or not, and
  leaves the state as it was.
\<close>

theorem inverse_transform_identity:
  "inverse_transform self y s = (Inr y, s)"
  by (simp add: inverse_transform_def return_py_def)

text \<open>
  C6. \<^verbatim>\<open>PBNN.transform(X)\<close> is \<^verbatim>\<open>PBNN.predict(X)\<close> with the default
  \<^verbatim>\<open>n_samples = 100\<close>: the same value or exception, and the same final state, from
  every state.
\<close>

theorem transform_is_predict:
  "transform fw self X = predict fw self X 100"
  by (simp add: transform_def)

text \<open>
  C7. \<^verbatim>\<open>PBNN.fit_transform(X, y)\<close> is \<^verbatim>\<open>fit(X, y)\<close> followed by \<^verbatim>\<open>transform(X)\<close>
  on the same estimator, in the state that \<^verbatim>\<open>fit\<close> leaves: the same value or
  exception, and the same final state.
\<close>

theorem fit_transform_is_fit_then_transform:
  "fit_transform fw self X y = then_py (fit fw self X y) (\<lambda>_. transform fw self X)"
proof
  fix s
  show "fit_transform fw self X y s = then_py (fit fw self X y) (\<lambda>_. transform fw self X) s"
    by (simp add: fit_transform_def then_py_def fit_unfold split: prod.splits sum.splits)
qed

text \<open>
  C9. \<^verbatim>\<open>PBNN.fit(X, y)\<close> returns \<^verbatim>\<open>self\<close> when the framework's \<^verbatim>\<open>fit\<close> returns;
  an exception of the framework's \<^verbatim>\<open>fit\<close> leaves \<^verbatim>\<open>PBNN.fit\<close> unchanged.
\<close>

theorem fit_returns_self:
  "(\<exists>v. fst (model_fit fw (model (objs s self)) X y (epochs (objs s self))
             (batch_size (objs s self)) (verbose (objs s self)) (world s)) = Inr v \<and>
        fst (fit fw self X y s) = Inr self) \<or>
   (\<exists>e. fst (model_fit fw (model (objs s self)) X y (epochs (objs s self))
             (batch_size (objs s self)) (verbose (objs s self)) (world s)) = Inl e \<and>
        fst (fit fw self X y s) = Inl e)"
  by (auto simp add: fit_unfold split: prod.splits sum.splits)

theorem fit_returns_self_witness:
  "fst (fit example_framework 7 5 (Some 1) example_state) = Inr 7 \<and>
   fst (fit example_framework 7 5 None example_state) = Inl (FrameworkError ''no target'')"
  using fit_returns_self [of example_framework example_state 7 5 "Some 1"]
    fit_returns_self [of example_framework example_state 7 5 None]
  by (simp add: example_framework_def)

end
